theory Spec2Isabelle
  imports Main
begin

section \<open>The Airflow metadata clean-up workflow (db-cleanup/airflow\_db\_cleanup.py)\<close>

text \<open>
  The workflow has one configuration task, \<open>print_configuration\<close>, and one clean-up task
  per entry of \<open>DATABASE_OBJECTS\<close>. The configuration task resolves the retention age,
  computes \<open>max_date\<close> and pushes it to XCom; every clean-up task pulls that value,
  queries the rows of its model whose age column is at most \<open>max_date\<close>, logs them and,
  when \<open>ENABLE_DELETE\<close> holds, deletes them through the shared session.
\<close>

subsection \<open>Values of the Python run time\<close>

text \<open>
  \<open>dag_run.conf\<close> is whatever \<open>json.loads\<close> made of the \<open>--conf\<close> argument, or
  \<open>None\<close>. \<open>JNull\<close> stands for \<open>None\<close>, a \<open>JDict\<close> is looked up with \<open>map_of\<close>.
  JSON numbers with a fractional part (Python floats) are not part of the model.
\<close>

datatype json =
    JNull
  | JBool bool
  | JInt int
  | JStr string
  | JList "json list"
  | JDict "(string \<times> json) list"

datatype exn = AttributeError | TypeError | OverflowError | KeyError | StoreError

datatype result = Returned | Raised exn

text \<open>Truth value of an object, as \<open>if dag_run_conf:\<close> tests it.\<close>

fun truthy :: "json \<Rightarrow> bool" where
  "truthy JNull = False"
| "truthy (JBool b) = b"
| "truthy (JInt n) = (n \<noteq> 0)"
| "truthy (JStr s) = (s \<noteq> [])"
| "truthy (JList xs) = (xs \<noteq> [])"
| "truthy (JDict kvs) = (kvs \<noteq> [])"

text \<open>\<open>obj.get(key, None)\<close>: only a dict has the method.\<close>

fun dict_get :: "json \<Rightarrow> string \<Rightarrow> exn + json" where
  "dict_get (JDict kvs) key = Inr (case map_of kvs key of None \<Rightarrow> JNull | Some v \<Rightarrow> v)"
| "dict_get _ key = Inl AttributeError"

subsection \<open>Dates\<close>

text \<open>
  A \<open>datetime\<close> is counted in microseconds since 0001-01-01 00:00:00, the smallest
  value of the type; the largest is 9999-12-31 23:59:59.999999 (day 3652059 of the
  proleptic Gregorian calendar). A \<open>timedelta\<close> is a number of microseconds. Arithmetic
  that leaves either range raises \<open>OverflowError\<close>.
\<close>

type_synonym datetime = int

definition microseconds_per_day :: int where
  "microseconds_per_day = 86400000000"

definition datetime_end :: int where
  "datetime_end = 3652059 * microseconds_per_day"

definition is_datetime :: "int \<Rightarrow> bool" where
  "is_datetime t = (0 \<le> t \<and> t < datetime_end)"

text \<open>
  \<open>timedelta(days)\<close> with one positional argument: an integer number of days of
  magnitude at most 999999999 (a \<open>bool\<close> is an integer in Python); any other object is a
  \<open>TypeError\<close>.
\<close>

fun timedelta :: "json \<Rightarrow> exn + int" where
  "timedelta (JInt n) =
     (if 999999999 < \<bar>n\<bar> then Inl OverflowError else Inr (n * microseconds_per_day))"
| "timedelta (JBool b) = Inr ((if b then 1 else 0) * microseconds_per_day)"
| "timedelta _ = Inl TypeError"

definition datetime_sub :: "datetime \<Rightarrow> int \<Rightarrow> exn + datetime" where
  "datetime_sub t delta =
     (if is_datetime (t - delta) then Inr (t - delta) else Inl OverflowError)"

subsection \<open>The metadata store\<close>

datatype model = DagRun | TaskInstance | Log | XCom | BaseJob | SlaMiss

fun model_name :: "model \<Rightarrow> string" where
  "model_name DagRun = ''DagRun''"
| "model_name TaskInstance = ''TaskInstance''"
| "model_name Log = ''Log''"
| "model_name XCom = ''XCom''"
| "model_name BaseJob = ''BaseJob''"
| "model_name SlaMiss = ''SlaMiss''"

text \<open>
  A mapped column such as \<open>DagRun.execution_date\<close>: the model it belongs to and the
  attribute name. Its \<open>str\<close> is \<open>Model.attribute\<close>, so \<open>str(c).split(".")[1]\<close> is
  the attribute name.
\<close>

datatype column = Column model string

fun column_key :: "column \<Rightarrow> string" where
  "column_key (Column m a) = a"

text \<open>
  A loaded row: its table, its primary key and its \<open>__dict__\<close> of date attributes
  (\<open>None\<close> for SQL NULL).
\<close>

record entity =
  table :: model
  pk :: nat
  dict :: "(string \<times> datetime option) list"

datatype call = Query model column "datetime option" | Delete entity

text \<open>
  The session: the rows a query sees, the operations issued on it so far, and the
  objects whose deletion the store refuses (a row that vanished, a constraint).
\<close>

record session =
  rows :: "entity list"
  calls :: "call list"
  refused :: "entity list"

text \<open>
  The SQL predicate \<open>column <= max_date\<close> on one row: a NULL on either side is not a
  match. The column is read on the queried table (every entry of \<open>DATABASE_OBJECTS\<close>
  pairs a model with one of its own columns).
\<close>

definition age_le :: "column \<Rightarrow> datetime option \<Rightarrow> entity \<Rightarrow> bool" where
  "age_le c max_date e =
     (case (map_of (dict e) (column_key c), max_date) of
        (Some (Some t), Some d) \<Rightarrow> t \<le> d
      | _ \<Rightarrow> False)"

text \<open>\<open>SESSION.query(m).filter(c <= max_date).all()\<close>\<close>

definition session_query ::
  "model \<Rightarrow> column \<Rightarrow> datetime option \<Rightarrow> session \<Rightarrow> entity list \<times> session" where
  "session_query m c max_date s =
     (filter (\<lambda>e. table e = m \<and> age_le c max_date e) (rows s),
      s\<lparr>calls := calls s @ [Query m c max_date]\<rparr>)"

text \<open>\<open>SESSION.delete(entry)\<close>: the row is gone for later queries, unless the store refuses.\<close>

definition session_delete :: "entity \<Rightarrow> session \<Rightarrow> result \<times> session" where
  "session_delete e s =
     (let s' = s\<lparr>calls := calls s @ [Delete e]\<rparr>
      in if e \<in> set (refused s) then (Raised StoreError, s')
         else (Returned, s'\<lparr>rows := filter (\<lambda>r. r \<noteq> e) (rows s')\<rparr>))"

subsection \<open>Logging and XCom\<close>

text \<open>
  A log message is the sequence of the pieces the source concatenates; the text of
  \<open>str(x)\<close> is kept as the object \<open>x\<close> itself.
\<close>

datatype piece =
    Str string
  | StrJson json
  | StrInt int
  | StrNat nat
  | StrBool bool
  | StrDate "datetime option"
  | StrSession
  | StrModel model
  | StrColumn column
  | StrEntity entity

datatype level = INFO | WARNING

type_synonym log_line = "level \<times> piece list"

record world =
  logs :: "log_line list"
  store :: session
  xcom :: "((string \<times> string) \<times> datetime) list"

definition logging_info :: "piece list \<Rightarrow> world \<Rightarrow> world" where
  "logging_info msg w = w\<lparr>logs := logs w @ [(INFO, msg)]\<rparr>"

definition logging_warn :: "piece list \<Rightarrow> world \<Rightarrow> world" where
  "logging_warn msg w = w\<lparr>logs := logs w @ [(WARNING, msg)]\<rparr>"

text \<open>
  \<open>ti.xcom_push(key, value)\<close> of the task \<open>task_id\<close> replaces the value stored under
  that task and key; \<open>ti.xcom_pull(task_ids, key)\<close> is \<open>None\<close> when nothing is stored.
\<close>

definition xcom_push :: "string \<Rightarrow> string \<Rightarrow> datetime \<Rightarrow> world \<Rightarrow> world" where
  "xcom_push task_id key v w =
     w\<lparr>xcom := ((task_id, key), v) # filter (\<lambda>kv. fst kv \<noteq> (task_id, key)) (xcom w)\<rparr>"

definition xcom_pull :: "string \<Rightarrow> string \<Rightarrow> world \<Rightarrow> datetime option" where
  "xcom_pull task_ids key w = map_of (xcom w) (task_ids, key)"

subsection \<open>Module constants\<close>

definition DEFAULT_MAX_DB_ENTRY_AGE_IN_DAYS :: int where
  "DEFAULT_MAX_DB_ENTRY_AGE_IN_DAYS = 30"

definition ENABLE_DELETE :: bool where
  "ENABLE_DELETE = True"

record db_object =
  airflow_db_model :: model
  age_check_column :: column


definition PRINT_CONFIGURATION_task_id :: string where
  "PRINT_CONFIGURATION_task_id = ''print_configuration''"

subsection \<open>The configuration task\<close>

text \<open>
  \<open>print_configuration_function\<close>, with the run's \<open>dag_run.conf\<close> and the reading of
  \<open>datetime.now()\<close> as arguments. The flag printed in the configuration block is the
  module constant.
\<close>

definition print_configuration_function ::
  "json \<Rightarrow> datetime \<Rightarrow> world \<Rightarrow> result \<times> world" where
  "print_configuration_function dag_run_conf now w0 =
     (let w1 = logging_info [Str ''Loading Configurations...''] w0;
          w2 = logging_info [Str ''dag_run.conf: '', StrJson dag_run_conf] w1
      in case (if truthy dag_run_conf
               then dict_get dag_run_conf ''maxDBEntryAgeInDays''
               else Inr JNull) of
           Inl e \<Rightarrow> (Raised e, w2)
         | Inr got \<Rightarrow>
            (let w3 = logging_info
                        [Str ''maxDBEntryAgeInDays from dag_run.conf: '',
                         StrJson dag_run_conf] w2;
                 w4 = (if got = JNull
                       then logging_info
                              [Str ''maxDBEntryAgeInDays conf variable isn't included. Using Default '',
                               Str [CHR 0x27], StrInt DEFAULT_MAX_DB_ENTRY_AGE_IN_DAYS,
                               Str [CHR 0x27]] w3
                       else w3);
                 max_db_entry_age_in_days =
                   (if got = JNull then JInt DEFAULT_MAX_DB_ENTRY_AGE_IN_DAYS else got)
             in case timedelta max_db_entry_age_in_days of
                  Inl e \<Rightarrow> (Raised e, w4)
                | Inr delta \<Rightarrow>
                   (case datetime_sub now delta of
                      Inl e \<Rightarrow> (Raised e, w4)
                    | Inr max_date \<Rightarrow>
                       (let w5 = logging_info [Str ''Finished Loading Configurations''] w4;
                            w6 = logging_info [Str ''''] w5;
                            w7 = logging_info [Str ''Configurations:''] w6;
                            w8 = logging_info
                                   [Str ''max_db_entry_age_in_days: '',
                                    StrJson max_db_entry_age_in_days] w7;
                            w9 = logging_info
                                   [Str ''max_date:                 '',
                                    StrDate (Some max_date)] w8;
                            w10 = logging_info
                                    [Str ''enable_delete:            '',
                                     StrBool ENABLE_DELETE] w9;
                            w11 = logging_info
                                    [Str ''session:                  '', StrSession] w10;
                            w12 = logging_info [Str ''''] w11;
                            w13 = logging_info
                                    [Str ''Setting max_execution_date to XCom for Downstream Processes'']
                                    w12
                        in (Returned,
                            xcom_push PRINT_CONFIGURATION_task_id ''max_date'' max_date w13)))))"

subsection \<open>The clean-up task\<close>

text \<open>
  The first loop of \<open>cleanup_function\<close>: one line per entry, with the entry and the
  value of its age attribute read from \<open>entry.__dict__\<close> (a missing key raises).
\<close>

fun report_entries :: "column \<Rightarrow> entity list \<Rightarrow> world \<Rightarrow> result \<times> world" where
  "report_entries c [] w = (Returned, w)"
| "report_entries c (entry # rest) w =
     (case map_of (dict entry) (column_key c) of
        None \<Rightarrow> (Raised KeyError, w)
      | Some v \<Rightarrow>
         report_entries c rest
           (logging_info
              [Str (CHR 0x09 # ''Entry: ''), StrEntity entry, Str '', Date: '', StrDate v] w))"

text \<open>
  The second loop: \<open>SESSION.delete(entry)\<close> for each entry in turn. Nothing catches an
  exception of the call, so the first one leaves the loop and the function.
\<close>

fun delete_entries :: "entity list \<Rightarrow> world \<Rightarrow> result \<times> world" where
  "delete_entries [] w = (Returned, w)"
| "delete_entries (entry # rest) w =
     (case session_delete entry (store w) of
        (Raised e, s) \<Rightarrow> (Raised e, w\<lparr>store := s\<rparr>)
      | (Returned, s) \<Rightarrow> delete_entries rest (w\<lparr>store := s\<rparr>))"

text \<open>
  \<open>cleanup_function\<close>, with the flag \<open>ENABLE_DELETE\<close> (a module constant the operator
  edits) and the task's \<open>params\<close> as arguments.
\<close>

definition cleanup_function :: "bool \<Rightarrow> db_object \<Rightarrow> world \<Rightarrow> result \<times> world" where
  "cleanup_function enable_delete params w0 =
     (let w1 = logging_info [Str ''Retrieving max_execution_date from XCom''] w0;
          max_date = xcom_pull PRINT_CONFIGURATION_task_id ''max_date'' w1;
          m = airflow_db_model params;
          c = age_check_column params;
          w2 = logging_info [Str ''Configurations:''] w1;
          w3 = logging_info [Str ''max_date:                 '', StrDate max_date] w2;
          w4 = logging_info [Str ''enable_delete:            '', StrBool enable_delete] w3;
          w5 = logging_info [Str ''session:                  '', StrSession] w4;
          w6 = logging_info [Str ''airflow_db_model:         '', StrModel m] w5;
          w7 = logging_info [Str ''age_check_column:         '', StrColumn c] w6;
          w8 = logging_info [Str ''''] w7;
          w9 = logging_info [Str ''Running Cleanup Process...''] w8;
          q = session_query m c max_date (store w9);
          entries_to_delete = fst q;
          w10 = w9\<lparr>store := snd q\<rparr>;
          w11 = logging_info
                  [Str ''Process will be Deleting the following '', Str (model_name m),
                   Str ''(s):''] w10
      in case report_entries c entries_to_delete w11 of
           (Raised e, w) \<Rightarrow> (Raised e, w)
         | (Returned, w12) \<Rightarrow>
            (let w13 = logging_info
                         [Str ''Process will be Deleting '',
                          StrNat (length entries_to_delete), Str '' '',
                          Str (model_name m), Str ''(s)''] w12
             in if enable_delete
                then (case delete_entries entries_to_delete
                             (logging_info [Str ''Performing Delete...''] w13) of
                        (Raised e, w) \<Rightarrow> (Raised e, w)
                      | (Returned, w14) \<Rightarrow>
                         (Returned,
                          logging_info [Str ''Finished Running Cleanup Process'']
                            (logging_info [Str ''Finished Performing Delete''] w14)))
                else (Returned,
                      logging_info [Str ''Finished Running Cleanup Process'']
                        (logging_warn [Str ''You're opted to skip deleting the db entries!!!''] w13))))"

subsection \<open>Reading a run's trace\<close>

text \<open>
  What a run did is read from the log and from the operations issued on the session.
  Only the per-entry lines of the first loop name an entity, and only the line
  \<open>Process will be Deleting n Model(s)\<close> prints a length.
\<close>

fun piece_entity :: "piece \<Rightarrow> entity option" where
  "piece_entity (StrEntity e) = Some e"
| "piece_entity _ = None"

fun piece_nat :: "piece \<Rightarrow> nat option" where
  "piece_nat (StrNat n) = Some n"
| "piece_nat _ = None"

definition reported :: "log_line list \<Rightarrow> entity list" where
  "reported ls = concat (map (\<lambda>l. List.map_filter piece_entity (snd l)) ls)"

definition matched_counts :: "log_line list \<Rightarrow> nat list" where
  "matched_counts ls = concat (map (\<lambda>l. List.map_filter piece_nat (snd l)) ls)"

definition warnings :: "log_line list \<Rightarrow> log_line list" where
  "warnings ls = filter (\<lambda>l. fst l = WARNING) ls"

fun call_deleted :: "call \<Rightarrow> entity option" where
  "call_deleted (Delete e) = Some e"
| "call_deleted (Query m c d) = None"

fun call_cutoff :: "call \<Rightarrow> datetime option option" where
  "call_cutoff (Query m c d) = Some d"
| "call_cutoff (Delete e) = None"

text \<open>The entities \<open>SESSION.delete\<close> was called on, and the cut-off of each query, in order.\<close>

definition delete_calls :: "call list \<Rightarrow> entity list" where
  "delete_calls cs = List.map_filter call_deleted cs"

definition query_cutoffs :: "call list \<Rightarrow> datetime option list" where
  "query_cutoffs cs = List.map_filter call_cutoff cs"

text \<open>
  The candidates of a clean-up task started in the world \<open>w\<close>: the result of its query,
  with the cut-off it pulls from XCom.
\<close>

definition entries_to_delete :: "db_object \<Rightarrow> world \<Rightarrow> entity list" where
  "entries_to_delete params w =
     fst (session_query (airflow_db_model params) (age_check_column params)
            (xcom_pull PRINT_CONFIGURATION_task_id ''max_date'' w) (store w))"

text \<open>What a task appended to the log and to the session's operations.\<close>

definition new_logs :: "world \<Rightarrow> world \<Rightarrow> log_line list" where
  "new_logs w w' = drop (length (logs w)) (logs w')"

definition new_calls :: "world \<Rightarrow> world \<Rightarrow> call list" where
  "new_calls w w' = drop (length (calls (store w))) (calls (store w'))"

text \<open>The line the first loop logs for a candidate of the query on column \<open>c\<close>.\<close>

definition entry_line :: "column \<Rightarrow> entity \<Rightarrow> log_line" where
  "entry_line c e =
     (INFO, [Str (CHR 0x09 # ''Entry: ''), StrEntity e, Str '', Date: '',
             StrDate (case map_of (dict e) (column_key c) of None \<Rightarrow> None | Some v \<Rightarrow> v)])"

text \<open>The lines that announce the push of \<open>max_date\<close> to XCom.\<close>

definition publications :: "log_line list \<Rightarrow> log_line list" where
  "publications ls =
     filter (\<lambda>l. l = (INFO, [Str ''Setting max_execution_date to XCom for Downstream Processes'']))
       ls"

subsection \<open>The DAG and its runs\<close>

text \<open>
  The operators built at the end of the module: \<open>PRINT_CONFIGURATION_OPR\<close> and, for
  each entry of \<open>DATABASE_OBJECTS\<close>, a clean-up operator with that entry as \<open>params\<close>,
  set downstream of the configuration operator.
\<close>

datatype callable = Print_configuration | Cleanup db_object

record operator =
  task_id :: string
  python_callable :: callable
  upstream_task_ids :: "string list"





text \<open>
  One DAG run under the scheduler is a sequence of task attempts, each with the clock
  reading at that moment, in any order. An attempt takes place only when the task has not
  succeeded yet and every upstream task has (the default trigger rule); a failed attempt
  may be repeated, as a retry.
\<close>

record dag_run =
  world_of :: world
  succeeded :: "string list"




text \<open>The state in which a DAG run starts: nothing logged, issued or pushed yet.\<close>

definition new_dag_run :: "entity list \<Rightarrow> entity list \<Rightarrow> dag_run" where
  "new_dag_run table_rows refusals =
     \<lparr>world_of = \<lparr>logs = [], store = \<lparr>rows = table_rows, calls = [], refused = refusals\<rparr>,
                  xcom = []\<rparr>,
      succeeded = []\<rparr>"


subsection \<open>A small metadata store\<close>

text \<open>
  Three \<open>Log\<close> rows and one \<open>DagRun\<close> row, dated by the day number of the proleptic
  Gregorian calendar: 2024-04-01 is day 738977, 2024-05-02 day 739008, 2024-05-15 day
  739021 and 2024-06-01 day 739038.
\<close>

definition midnight :: "int \<Rightarrow> datetime" where
  "midnight ordinal = (ordinal - 1) * microseconds_per_day"

definition log_row :: "nat \<Rightarrow> int \<Rightarrow> entity" where
  "log_row k ordinal = \<lparr>table = Log, pk = k, dict = [(''dttm'', Some (midnight ordinal))]\<rparr>"

definition sample_rows :: "entity list" where
  "sample_rows =
     [log_row 11 738977, log_row 12 739021, log_row 13 739038,
      \<lparr>table = DagRun, pk = 21, dict = [(''execution_date'', Some (midnight 738977))]\<rparr>]"

definition sample_world :: "datetime \<Rightarrow> entity list \<Rightarrow> world" where
  "sample_world max_date refusals =
     \<lparr>logs = [],
      store = \<lparr>rows = sample_rows, calls = [], refused = refusals\<rparr>,
      xcom = [((PRINT_CONFIGURATION_task_id, ''max_date''), max_date)]\<rparr>"

definition Log_object :: db_object where
  "Log_object = \<lparr>airflow_db_model = Log, age_check_column = Column Log ''dttm''\<rparr>"

section \<open>Properties\<close>

subsection \<open>Reading traces\<close>

lemma trace_append:
  "reported (xs @ ys) = reported xs @ reported ys"
  "matched_counts (xs @ ys) = matched_counts xs @ matched_counts ys"
  "warnings (xs @ ys) = warnings xs @ warnings ys"
  "publications (xs @ ys) = publications xs @ publications ys"
  by (simp_all add: reported_def matched_counts_def warnings_def publications_def)

lemma trace_Cons:
  "reported [] = []"
  "reported (l # ls) = List.map_filter piece_entity (snd l) @ reported ls"
  "matched_counts [] = []"
  "matched_counts (l # ls) = List.map_filter piece_nat (snd l) @ matched_counts ls"
  "warnings [] = []"
  "warnings (l # ls) = (if fst l = WARNING then l # warnings ls else warnings ls)"
  by (simp_all add: reported_def matched_counts_def warnings_def)

lemma trace_entry_lines:
  "reported (map (entry_line c) es) = es"
  "matched_counts (map (entry_line c) es) = []"
  "warnings (map (entry_line c) es) = []"
  "publications (map (entry_line c) es) = []"
  by (induction es)
    (simp_all add: reported_def matched_counts_def warnings_def publications_def
      entry_line_def map_filter_def)

lemma calls_append:
  "delete_calls (xs @ ys) = delete_calls xs @ delete_calls ys"
  "query_cutoffs (xs @ ys) = query_cutoffs xs @ query_cutoffs ys"
  by (simp_all add: delete_calls_def query_cutoffs_def map_filter_def)

lemma calls_Cons:
  "delete_calls (Query m c d # cs) = delete_calls cs"
  "query_cutoffs (Query m c d # cs) = d # query_cutoffs cs"
  "delete_calls [] = []"
  "query_cutoffs [] = []"
  by (simp_all add: delete_calls_def query_cutoffs_def map_filter_def)

lemma calls_map_Delete:
  "delete_calls (map Delete es) = es"
  "query_cutoffs (map Delete es) = []"
  by (induction es) (simp_all add: delete_calls_def query_cutoffs_def map_filter_def)

lemma logging_info_simps:
  "logs (logging_info msg w) = logs w @ [(INFO, msg)]"
  "store (logging_info msg w) = store w"
  "xcom (logging_info msg w) = xcom w"
  "xcom_pull t k (logging_info msg w) = xcom_pull t k w"
  "logging_info msg (w\<lparr>store := s\<rparr>) = (logging_info msg w)\<lparr>store := s\<rparr>"
  by (simp_all add: logging_info_def xcom_pull_def)

lemma logging_warn_simps:
  "logs (logging_warn msg w) = logs w @ [(WARNING, msg)]"
  "store (logging_warn msg w) = store w"
  "xcom (logging_warn msg w) = xcom w"
  by (simp_all add: logging_warn_def)

lemma xcom_push_simps:
  "xcom_pull t k (xcom_push t k v w) = Some v"
  "store (xcom_push t k v w) = store w"
  "logs (xcom_push t k v w) = logs w"
  by (simp_all add: xcom_push_def xcom_pull_def)

subsection \<open>The two loops\<close>

lemma age_le_dict:
  "age_le c d e \<Longrightarrow> \<exists>t. map_of (dict e) (column_key c) = Some (Some t)"
  by (auto simp: age_le_def split: option.splits)

lemma report_entries_candidates:
  "\<forall>e \<in> set es. age_le c d e \<Longrightarrow>
   report_entries c es w = (Returned, w\<lparr>logs := logs w @ map (entry_line c) es\<rparr>)"
proof (induction es arbitrary: w)
  case Nil
  show ?case by simp
next
  case (Cons e es)
  from Cons.prems obtain t where t: "map_of (dict e) (column_key c) = Some (Some t)"
    using age_le_dict by fastforce
  from Cons.prems have rest: "\<forall>x \<in> set es. age_le c d x" by simp
  show ?case
    by (simp add: t Cons.IH [OF rest] logging_info_def entry_line_def)
qed

lemma report_query:
  "report_entries c (fst (session_query m c d s)) w =
     (Returned, w\<lparr>logs := logs w @ map (entry_line c) (fst (session_query m c d s))\<rparr>)"
  by (rule report_entries_candidates [where d = d]) (simp add: session_query_def)

lemma snd_session_query:
  "snd (session_query m c d s) = s\<lparr>calls := calls s @ [Query m c d]\<rparr>"
  by (simp add: session_query_def)

lemma delete_entries_accepted:
  "set es \<inter> set (refused (store w)) = {} \<Longrightarrow>
   delete_entries es w =
     (Returned,
      w\<lparr>store := (store w)\<lparr>calls := calls (store w) @ map Delete es,
                           rows := filter (\<lambda>r. r \<notin> set es) (rows (store w))\<rparr>\<rparr>)"
proof (induction es arbitrary: w)
  case Nil
  show ?case by simp
next
  case (Cons e es)
  from Cons.prems have e: "e \<notin> set (refused (store w))" by auto
  let ?w = "w\<lparr>store := (store w)\<lparr>calls := calls (store w) @ [Delete e],
                 rows := filter (\<lambda>r. r \<noteq> e) (rows (store w))\<rparr>\<rparr>"
  from Cons.prems have rest: "set es \<inter> set (refused (store ?w)) = {}" by auto
  have step: "session_delete e (store w) = (Returned, store ?w)"
    using e by (simp add: session_delete_def Let_def)
  have "delete_entries (e # es) w = delete_entries es ?w"
    by (simp add: step)
  also note Cons.IH [OF rest]
  finally show ?case by (simp add: conj_commute)
qed

lemma delete_entries_refused:
  "set xs \<inter> set (refused (store w)) = {} \<Longrightarrow> e \<in> set (refused (store w)) \<Longrightarrow>
   delete_entries (xs @ e # ys) w =
     (Raised StoreError,
      w\<lparr>store := (store w)\<lparr>calls := calls (store w) @ map Delete (xs @ [e]),
                           rows := filter (\<lambda>r. r \<notin> set xs) (rows (store w))\<rparr>\<rparr>)"
proof (induction xs arbitrary: w)
  case Nil
  then show ?case by (simp add: session_delete_def Let_def)
next
  case (Cons x xs)
  from Cons.prems have x: "x \<notin> set (refused (store w))" by auto
  let ?w = "w\<lparr>store := (store w)\<lparr>calls := calls (store w) @ [Delete x],
                 rows := filter (\<lambda>r. r \<noteq> x) (rows (store w))\<rparr>\<rparr>"
  from Cons.prems have rest: "set xs \<inter> set (refused (store ?w)) = {}"
    and e: "e \<in> set (refused (store ?w))" by auto
  have step: "session_delete x (store w) = (Returned, store ?w)"
    using x by (simp add: session_delete_def Let_def)
  have "delete_entries ((x # xs) @ e # ys) w = delete_entries (xs @ e # ys) ?w"
    by (simp add: step)
  also note Cons.IH [OF rest e]
  finally show ?case by (simp add: conj_commute)
qed

subsection \<open>What one clean-up task does\<close>

lemmas cleanup_unfold =
  cleanup_function_def Let_def report_query logging_info_simps logging_warn_simps
  snd_session_query entries_to_delete_def new_logs_def new_calls_def

lemma publications_Cons:
  "publications [] = []"
  "publications (l # ls) =
     (if l = (INFO, [Str ''Setting max_execution_date to XCom for Downstream Processes''])
      then l # publications ls else publications ls)"
  by (simp_all add: publications_def)

lemmas trace_eval = trace_append trace_Cons trace_entry_lines publications_Cons

lemma cleanup_dry_run:
  fixes params w
  defines "r \<equiv> cleanup_function False params w"
  shows "fst r = Returned"
    and "store (snd r) =
           (store w)\<lparr>calls := calls (store w) @
              [Query (airflow_db_model params) (age_check_column params)
                 (xcom_pull PRINT_CONFIGURATION_task_id ''max_date'' w)]\<rparr>"
    and "xcom (snd r) = xcom w"
    and "logs (snd r) = logs w @ new_logs w (snd r)"
    and "reported (new_logs w (snd r)) = entries_to_delete params w"
    and "matched_counts (new_logs w (snd r)) = [length (entries_to_delete params w)]"
    and "warnings (new_logs w (snd r)) =
           [(WARNING, [Str ''You're opted to skip deleting the db entries!!!''])]"
    and "publications (new_logs w (snd r)) = []"
  unfolding r_def
         apply (simp_all add: cleanup_unfold)
     apply (simp_all add: trace_eval)
  done

lemma cleanup_enabled:
  fixes params w
  defines "r \<equiv> cleanup_function True params w"
  assumes ok: "set (entries_to_delete params w) \<inter> set (refused (store w)) = {}"
  shows "fst r = Returned"
    and "store (snd r) =
           (store w)\<lparr>calls := calls (store w) @
              Query (airflow_db_model params) (age_check_column params)
                 (xcom_pull PRINT_CONFIGURATION_task_id ''max_date'' w) #
              map Delete (entries_to_delete params w),
              rows := filter (\<lambda>r. r \<notin> set (entries_to_delete params w)) (rows (store w))\<rparr>"
    and "xcom (snd r) = xcom w"
    and "logs (snd r) = logs w @ new_logs w (snd r)"
    and "reported (new_logs w (snd r)) = entries_to_delete params w"
    and "matched_counts (new_logs w (snd r)) = [length (entries_to_delete params w)]"
    and "warnings (new_logs w (snd r)) = []"
    and "publications (new_logs w (snd r)) = []"
  using ok unfolding r_def
         apply (simp_all add: cleanup_unfold delete_entries_accepted)
     apply (simp_all add: trace_eval)
  done

lemma cleanup_aborted:
  fixes params w
  defines "r \<equiv> cleanup_function True params w"
  assumes es: "entries_to_delete params w = xs @ e # ys"
    and xs: "set xs \<inter> set (refused (store w)) = {}"
    and e: "e \<in> set (refused (store w))"
  shows "fst r = Raised StoreError"
    and "store (snd r) =
           (store w)\<lparr>calls := calls (store w) @
              Query (airflow_db_model params) (age_check_column params)
                 (xcom_pull PRINT_CONFIGURATION_task_id ''max_date'' w) #
              map Delete (xs @ [e]),
              rows := filter (\<lambda>r. r \<notin> set xs) (rows (store w))\<rparr>"
    and "xcom (snd r) = xcom w"
    and "logs (snd r) = logs w @ new_logs w (snd r)"
    and "reported (new_logs w (snd r)) = xs @ e # ys"
    and "matched_counts (new_logs w (snd r)) = [length (xs @ e # ys)]"
    and "warnings (new_logs w (snd r)) = []"
    and "publications (new_logs w (snd r)) = []"
  using es xs e unfolding r_def
         apply (simp_all add: cleanup_unfold delete_entries_refused)
     apply (simp_all add: trace_eval entry_line_def)
  done

text \<open>A run with deletion enabled either deletes every candidate or stops at the first refusal.\<close>

lemma first_refusal:
  assumes "set es \<inter> set rs \<noteq> {}"
  obtains xs e ys where "es = xs @ e # ys" and "set xs \<inter> set rs = {}" and "e \<in> set rs"
proof -
  from assms have "\<exists>x \<in> set es. x \<in> set rs" by auto
  then obtain xs e ys where "es = xs @ e # ys" "e \<in> set rs" "\<forall>y \<in> set xs. y \<notin> set rs"
    using split_list_first_prop [of es "\<lambda>x. x \<in> set rs"] by blast
  then show thesis using that [of xs e ys] by auto
qed

lemma calls_Cons_Delete:
  "delete_calls (Delete e # cs) = e # delete_calls cs"
  "query_cutoffs (Delete e # cs) = query_cutoffs cs"
  by (simp_all add: delete_calls_def query_cutoffs_def map_filter_def)

lemma cleanup_any_dry:
  fixes params w
  defines "r \<equiv> cleanup_function False params w"
  shows "xcom (snd r) = xcom w \<and> logs (snd r) = logs w @ new_logs w (snd r)
    \<and> reported (new_logs w (snd r)) = entries_to_delete params w
    \<and> matched_counts (new_logs w (snd r)) = [length (entries_to_delete params w)]
    \<and> publications (new_logs w (snd r)) = []
    \<and> calls (store (snd r)) = calls (store w) @ new_calls w (snd r)
    \<and> query_cutoffs (new_calls w (snd r)) =
           [xcom_pull PRINT_CONFIGURATION_task_id ''max_date'' w]"
  using cleanup_dry_run [where params = params and w = w] unfolding r_def
  by (simp add: new_calls_def calls_Cons)

lemma cleanup_any_enabled:
  fixes params w
  defines "r \<equiv> cleanup_function True params w"
  assumes ok: "set (entries_to_delete params w) \<inter> set (refused (store w)) = {}"
  shows "xcom (snd r) = xcom w \<and> logs (snd r) = logs w @ new_logs w (snd r)
    \<and> reported (new_logs w (snd r)) = entries_to_delete params w
    \<and> matched_counts (new_logs w (snd r)) = [length (entries_to_delete params w)]
    \<and> publications (new_logs w (snd r)) = []
    \<and> calls (store (snd r)) = calls (store w) @ new_calls w (snd r)
    \<and> query_cutoffs (new_calls w (snd r)) =
           [xcom_pull PRINT_CONFIGURATION_task_id ''max_date'' w]"
  using cleanup_enabled [OF ok] unfolding r_def
  by (simp add: new_calls_def calls_Cons calls_map_Delete)

lemma cleanup_any_aborted:
  fixes params w
  defines "r \<equiv> cleanup_function True params w"
  assumes es: "entries_to_delete params w = xs @ e # ys"
    and xs: "set xs \<inter> set (refused (store w)) = {}"
    and e: "e \<in> set (refused (store w))"
  shows "xcom (snd r) = xcom w \<and> logs (snd r) = logs w @ new_logs w (snd r)
    \<and> reported (new_logs w (snd r)) = entries_to_delete params w
    \<and> matched_counts (new_logs w (snd r)) = [length (entries_to_delete params w)]
    \<and> publications (new_logs w (snd r)) = []
    \<and> calls (store (snd r)) = calls (store w) @ new_calls w (snd r)
    \<and> query_cutoffs (new_calls w (snd r)) =
           [xcom_pull PRINT_CONFIGURATION_task_id ''max_date'' w]"
  using cleanup_aborted [OF es xs e] unfolding r_def
  by (simp add: new_calls_def calls_Cons calls_Cons_Delete calls_append calls_map_Delete es)

lemma cleanup_any:
  fixes params w b
  defines "r \<equiv> cleanup_function b params w"
  shows "xcom (snd r) = xcom w \<and> logs (snd r) = logs w @ new_logs w (snd r)
    \<and> reported (new_logs w (snd r)) = entries_to_delete params w
    \<and> matched_counts (new_logs w (snd r)) = [length (entries_to_delete params w)]
    \<and> publications (new_logs w (snd r)) = []
    \<and> calls (store (snd r)) = calls (store w) @ new_calls w (snd r)
    \<and> query_cutoffs (new_calls w (snd r)) =
           [xcom_pull PRINT_CONFIGURATION_task_id ''max_date'' w]"
proof (cases b)
  case False
  then show ?thesis unfolding r_def using cleanup_any_dry by simp
next
  case True
  show ?thesis
  proof (cases "set (entries_to_delete params w) \<inter> set (refused (store w)) = {}")
    case ok: True
    show ?thesis unfolding r_def using True cleanup_any_enabled [OF ok] by simp
  next
    case False
    then obtain xs e ys where es: "entries_to_delete params w = xs @ e # ys"
      and xs: "set xs \<inter> set (refused (store w)) = {}" and e: "e \<in> set (refused (store w))"
      by (rule first_refusal)
    show ?thesis unfolding r_def using True cleanup_any_aborted [OF es xs e] by simp
  qed
qed



subsection \<open>What the configuration task does\<close>

lemma days_in_range:
  assumes "is_datetime now" and "is_datetime (now - n * microseconds_per_day)"
  shows "\<bar>n\<bar> \<le> 999999999"
  using assms unfolding is_datetime_def datetime_end_def microseconds_per_day_def by arith

lemmas print_configuration_unfold =
  print_configuration_function_def Let_def datetime_sub_def xcom_push_simps logging_info_simps
  new_logs_def

lemma print_configuration_override:
  fixes kvs now w n
  defines "r \<equiv> print_configuration_function (JDict kvs) now w"
  assumes key: "map_of kvs ''maxDBEntryAgeInDays'' = Some (JInt n)"
    and now: "is_datetime now"
    and res: "is_datetime (now - n * microseconds_per_day)"
  shows "fst r = Returned"
    and "xcom_pull PRINT_CONFIGURATION_task_id ''max_date'' (snd r) =
           Some (now - n * microseconds_per_day)"
    and "store (snd r) = store w"
proof -
  have ne: "kvs \<noteq> []" using key by auto
  have n: "\<not> 999999999 < \<bar>n\<bar>" using days_in_range [OF now res] by simp
  show "fst r = Returned"
    and "xcom_pull PRINT_CONFIGURATION_task_id ''max_date'' (snd r) =
           Some (now - n * microseconds_per_day)"
    and "store (snd r) = store w"
    using ne n res unfolding r_def
    by (simp_all add: print_configuration_unfold key)
qed

lemma print_configuration_default:
  fixes conf now w
  defines "r \<equiv> print_configuration_function conf now w"
  assumes absent: "\<not> truthy conf \<or>
      (\<exists>kvs. conf = JDict kvs \<and> map_of kvs ''maxDBEntryAgeInDays'' \<in> {None, Some JNull})"
    and res: "is_datetime (now - DEFAULT_MAX_DB_ENTRY_AGE_IN_DAYS * microseconds_per_day)"
  shows "fst r = Returned"
    and "xcom_pull PRINT_CONFIGURATION_task_id ''max_date'' (snd r) =
           Some (now - DEFAULT_MAX_DB_ENTRY_AGE_IN_DAYS * microseconds_per_day)"
    and "store (snd r) = store w"
proof -
  have got: "(if truthy conf then dict_get conf ''maxDBEntryAgeInDays'' else Inr JNull)
               = Inr JNull"
    using absent by auto
  have d: "\<not> 999999999 < \<bar>DEFAULT_MAX_DB_ENTRY_AGE_IN_DAYS\<bar>"
    by (simp add: DEFAULT_MAX_DB_ENTRY_AGE_IN_DAYS_def)
  show "fst r = Returned"
    and "xcom_pull PRINT_CONFIGURATION_task_id ''max_date'' (snd r) =
           Some (now - DEFAULT_MAX_DB_ENTRY_AGE_IN_DAYS * microseconds_per_day)"
    and "store (snd r) = store w"
    using res d unfolding r_def
    by (simp_all add: print_configuration_unfold got)
qed

lemma print_configuration_malformed:
  fixes kvs now w
  defines "r \<equiv> print_configuration_function (JDict kvs) now w"
  assumes key: "map_of kvs ''maxDBEntryAgeInDays'' = Some v"
    and v: "(\<exists>s. v = JStr s) \<or> (\<exists>xs. v = JList xs) \<or> (\<exists>d. v = JDict d)"
  shows "fst r = Raised TypeError"
    and "xcom (snd r) = xcom w"
proof -
  have ne: "kvs \<noteq> []" using key by auto
  show "fst r = Raised TypeError" and "xcom (snd r) = xcom w"
    using ne v unfolding r_def
    by (auto simp add: print_configuration_unfold key)
qed



section \<open>The claims\<close>

lemma sample_simps:
  "rows (store (sample_world d rs)) = sample_rows"
  "refused (store (sample_world d rs)) = rs"
  "xcom_pull PRINT_CONFIGURATION_task_id ''max_date'' (sample_world d rs) = Some d"
  by (simp_all add: sample_world_def xcom_pull_def)

lemma sample_candidates:
  "entries_to_delete Log_object (sample_world (midnight 739008) rs) = [log_row 11 738977]"
  "entries_to_delete Log_object (sample_world (midnight 739038) rs) =
     [log_row 11 738977, log_row 12 739021, log_row 13 739038]"
  by (simp_all add: entries_to_delete_def session_query_def sample_simps sample_rows_def
      Log_object_def log_row_def age_le_def midnight_def microseconds_per_day_def)

lemma log_rows_distinct:
  "log_row 11 738977 \<noteq> log_row 12 739021"
  "log_row 11 738977 \<noteq> log_row 13 739038"
  "log_row 12 739021 \<noteq> log_row 13 739038"
  "log_row 12 739021 \<noteq> log_row 11 738977"
  "log_row 13 739038 \<noteq> log_row 11 738977"
  "log_row 13 739038 \<noteq> log_row 12 739021"
  by (simp_all add: log_row_def)

text \<open>
  C3. With \<open>ENABLE_DELETE\<close> false a clean-up task returns, calls \<open>SESSION.delete\<close> on
  nothing and leaves the rows of the store as they were; it logs the same candidates and
  the same count as the run with deletion enabled, and one warning that deletion was
  skipped.
\<close>

theorem dry_run_leaves_store_unchanged:
  "fst (cleanup_function False params w) = Returned \<and>
   delete_calls (new_calls w (snd (cleanup_function False params w))) = [] \<and>
   rows (store (snd (cleanup_function False params w))) = rows (store w) \<and>
   reported (new_logs w (snd (cleanup_function False params w))) = entries_to_delete params w \<and>
   reported (new_logs w (snd (cleanup_function False params w))) =
     reported (new_logs w (snd (cleanup_function True params w))) \<and>
   matched_counts (new_logs w (snd (cleanup_function False params w))) =
     matched_counts (new_logs w (snd (cleanup_function True params w))) \<and>
   matched_counts (new_logs w (snd (cleanup_function False params w))) =
     [length (entries_to_delete params w)] \<and>
   warnings (new_logs w (snd (cleanup_function False params w))) =
     [(WARNING, [Str ''You're opted to skip deleting the db entries!!!''])]"
  using cleanup_dry_run [where params = params and w = w]
    cleanup_any [where b = True and params = params and w = w]
  by (simp add: new_calls_def calls_Cons)

theorem dry_run_leaves_store_unchanged_witness:
  "rows (store (snd (cleanup_function False Log_object (sample_world (midnight 739008) [])))) =
     sample_rows \<and>
   reported (new_logs (sample_world (midnight 739008) [])
     (snd (cleanup_function False Log_object (sample_world (midnight 739008) [])))) =
     [log_row 11 738977] \<and>
   delete_calls (new_calls (sample_world (midnight 739008) [])
     (snd (cleanup_function False Log_object (sample_world (midnight 739008) [])))) = []"
  using dry_run_leaves_store_unchanged
    [of Log_object "sample_world (midnight 739008) []"]
  by (simp add: sample_simps sample_candidates)




text \<open>
  C8, as the specification states it, fails: with three candidates of which the store
  refuses the second, the task raises, and \<open>SESSION.delete\<close> is never called on the
  third.
\<close>

theorem refused_delete_counterexample:
  "entries_to_delete Log_object (sample_world (midnight 739038) [log_row 12 739021]) =
     [log_row 11 738977, log_row 12 739021, log_row 13 739038] \<and>
   fst (cleanup_function True Log_object (sample_world (midnight 739038) [log_row 12 739021])) =
     Raised StoreError \<and>
   delete_calls (new_calls (sample_world (midnight 739038) [log_row 12 739021])
     (snd (cleanup_function True Log_object
        (sample_world (midnight 739038) [log_row 12 739021])))) =
     [log_row 11 738977, log_row 12 739021]"
proof -
  have es: "entries_to_delete Log_object (sample_world (midnight 739038) [log_row 12 739021]) =
      [log_row 11 738977] @ log_row 12 739021 # [log_row 13 739038]"
    by (simp add: sample_candidates)
  have xs: "set [log_row 11 738977] \<inter>
      set (refused (store (sample_world (midnight 739038) [log_row 12 739021]))) = {}"
    by (simp add: sample_simps log_rows_distinct)
  have e: "log_row 12 739021 \<in>
      set (refused (store (sample_world (midnight 739038) [log_row 12 739021])))"
    by (simp add: sample_simps)
  show ?thesis
    using cleanup_aborted(1,2) [OF es xs e]
    by (simp add: sample_candidates new_calls_def calls_Cons calls_Cons_Delete)
qed

text \<open>
  C8, amended. Nothing in \<open>cleanup_function\<close> catches an exception of
  \<open>SESSION.delete\<close>: when the store refuses a candidate, the task raises at that
  candidate. The candidates before it have been deleted, the refused one has been
  attempted, and those after it are not attempted; all of them were logged before.
\<close>

theorem refused_delete_aborts_the_loop:
  assumes "entries_to_delete params w = xs @ e # ys"
    and "set xs \<inter> set (refused (store w)) = {}"
    and "e \<in> set (refused (store w))"
  shows "fst (cleanup_function True params w) = Raised StoreError \<and>
   delete_calls (new_calls w (snd (cleanup_function True params w))) = xs @ [e] \<and>
   rows (store (snd (cleanup_function True params w))) =
     filter (\<lambda>r. r \<notin> set xs) (rows (store w)) \<and>
   reported (new_logs w (snd (cleanup_function True params w))) = xs @ e # ys"
  using cleanup_aborted [OF assms]
  by (simp add: new_calls_def calls_Cons calls_Cons_Delete calls_append calls_map_Delete)

theorem refused_delete_aborts_the_loop_witness:
  "entries_to_delete Log_object (sample_world (midnight 739038) [log_row 11 738977]) =
     [] @ log_row 11 738977 # [log_row 12 739021, log_row 13 739038] \<and>
   fst (cleanup_function True Log_object (sample_world (midnight 739038) [log_row 11 738977])) =
     Raised StoreError \<and>
   delete_calls (new_calls (sample_world (midnight 739038) [log_row 11 738977])
     (snd (cleanup_function True Log_object
        (sample_world (midnight 739038) [log_row 11 738977])))) = [log_row 11 738977] \<and>
   rows (store (snd (cleanup_function True Log_object
        (sample_world (midnight 739038) [log_row 11 738977])))) = sample_rows"
proof -
  have es: "entries_to_delete Log_object (sample_world (midnight 739038) [log_row 11 738977]) =
      [] @ log_row 11 738977 # [log_row 12 739021, log_row 13 739038]"
    by (simp add: sample_candidates)
  have xs: "set [] \<inter>
      set (refused (store (sample_world (midnight 739038) [log_row 11 738977]))) = {}"
    by simp
  have e: "log_row 11 738977 \<in>
      set (refused (store (sample_world (midnight 739038) [log_row 11 738977])))"
    by (simp add: sample_simps)
  show ?thesis
    using es refused_delete_aborts_the_loop [OF es xs e]
    by (simp add: sample_simps)
qed

text \<open>
  C9. After a clean-up task with deletion enabled has returned, the same task started
  again on the state it left, with the cut-off still in XCom, finds no candidate and logs
  a count of zero.
\<close>

theorem second_run_matches_nothing:
  assumes "fst (cleanup_function True params w) = Returned"
  shows "xcom (snd (cleanup_function True params w)) = xcom w \<and>
   entries_to_delete params (snd (cleanup_function True params w)) = [] \<and>
   matched_counts
     (new_logs (snd (cleanup_function True params w))
        (snd (cleanup_function b params (snd (cleanup_function True params w))))) = [0]"
proof -
  have ok: "set (entries_to_delete params w) \<inter> set (refused (store w)) = {}"
  proof (rule ccontr)
    assume "set (entries_to_delete params w) \<inter> set (refused (store w)) \<noteq> {}"
    then obtain xs e ys where "entries_to_delete params w = xs @ e # ys"
      and "set xs \<inter> set (refused (store w)) = {}" and "e \<in> set (refused (store w))"
      by (rule first_refusal)
    then have "fst (cleanup_function True params w) = Raised StoreError"
      by (rule cleanup_aborted(1))
    with assms show False by simp
  qed
  let ?w = "snd (cleanup_function True params w)"
  have x: "xcom ?w = xcom w" by (rule cleanup_enabled(3) [OF ok])
  have "entries_to_delete params ?w =
      filter (\<lambda>e. table e = airflow_db_model params \<and>
                   age_le (age_check_column params)
                     (xcom_pull PRINT_CONFIGURATION_task_id ''max_date'' w) e)
        (filter (\<lambda>r. r \<notin> set (entries_to_delete params w)) (rows (store w)))"
    by (simp add: entries_to_delete_def [of params ?w] session_query_def
        cleanup_enabled(2) [OF ok] xcom_pull_def x)
  also have "\<dots> = []"
    by (auto simp add: entries_to_delete_def session_query_def filter_empty_conv)
  finally have none: "entries_to_delete params ?w = []" .
  show ?thesis
    using x none cleanup_any [where b = b and params = params and w = ?w]
    by simp
qed

theorem second_run_matches_nothing_witness:
  "fst (cleanup_function True Log_object (sample_world (midnight 739008) [])) = Returned \<and>
   entries_to_delete Log_object
     (snd (cleanup_function True Log_object (sample_world (midnight 739008) []))) = []"
proof -
  have h: "fst (cleanup_function True Log_object (sample_world (midnight 739008) [])) = Returned"
    by (rule cleanup_enabled(1)) (simp add: sample_simps)
  show ?thesis
    using h second_run_matches_nothing [OF h] by simp
qed




lemma age_le_iff:
  "age_le c md e \<longleftrightarrow>
     (\<exists>t d. map_of (dict e) (column_key c) = Some (Some t) \<and> md = Some d \<and> t \<le> d)"
proof (cases "map_of (dict e) (column_key c)")
  case None
  then show ?thesis by (simp add: age_le_def)
next
  case (Some v)
  then show ?thesis by (cases v; cases md) (simp_all add: age_le_def)
qed

text \<open>
  C5. The candidates of a clean-up task are exactly the rows of the task's model whose
  age attribute is not NULL and at most the cut-off pulled from XCom; they are the
  entries the task logs. With the override \<open>maxDBEntryAgeInDays = 0\<close> the configuration
  task pushes the clock reading itself, so a row dated exactly \<open>now\<close> is a candidate.
\<close>

theorem candidates_are_rows_at_or_before_cutoff:
  "set (entries_to_delete params w) =
     {e \<in> set (rows (store w)). table e = airflow_db_model params \<and>
        (\<exists>t d. map_of (dict e) (column_key (age_check_column params)) = Some (Some t) \<and>
               xcom_pull PRINT_CONFIGURATION_task_id ''max_date'' w = Some d \<and> t \<le> d)} \<and>
   reported (new_logs w (snd (cleanup_function b params w))) = entries_to_delete params w \<and>
   (map_of kvs ''maxDBEntryAgeInDays'' = Some (JInt 0) \<and> is_datetime now \<longrightarrow>
      fst (print_configuration_function (JDict kvs) now w) = Returned \<and>
      xcom_pull PRINT_CONFIGURATION_task_id ''max_date''
        (snd (print_configuration_function (JDict kvs) now w)) = Some now \<and>
      (\<forall>e \<in> set (rows (store w)).
         table e = airflow_db_model params \<and>
         map_of (dict e) (column_key (age_check_column params)) = Some (Some now) \<longrightarrow>
         e \<in> set (entries_to_delete params
                    (snd (print_configuration_function (JDict kvs) now w)))))"
proof -
  have sets: "set (entries_to_delete params v) =
     {e \<in> set (rows (store v)). table e = airflow_db_model params \<and>
        (\<exists>t d. map_of (dict e) (column_key (age_check_column params)) = Some (Some t) \<and>
               xcom_pull PRINT_CONFIGURATION_task_id ''max_date'' v = Some d \<and> t \<le> d)}" for v
    by (auto simp add: entries_to_delete_def session_query_def age_le_iff)
  have zero: "fst (print_configuration_function (JDict kvs) now w) = Returned \<and>
      xcom_pull PRINT_CONFIGURATION_task_id ''max_date''
        (snd (print_configuration_function (JDict kvs) now w)) = Some now \<and>
      store (snd (print_configuration_function (JDict kvs) now w)) = store w"
    if "map_of kvs ''maxDBEntryAgeInDays'' = Some (JInt 0)" and "is_datetime now"
    using print_configuration_override [of kvs 0 now w] that by simp
  show ?thesis
    using sets [of w] zero cleanup_any [where b = b and params = params and w = w]
    by (simp add: sets [of "snd (print_configuration_function (JDict kvs) now w)"])
qed

theorem candidates_are_rows_at_or_before_cutoff_witness:
  "map_of [(''maxDBEntryAgeInDays'', JInt 0)] ''maxDBEntryAgeInDays'' = Some (JInt 0) \<and>
   is_datetime (midnight 739038) \<and>
   log_row 13 739038 \<in> set (rows (store (world_of (new_dag_run sample_rows [])))) \<and>
   log_row 13 739038 \<in> set (entries_to_delete Log_object
      (snd (print_configuration_function (JDict [(''maxDBEntryAgeInDays'', JInt 0)])
         (midnight 739038) (world_of (new_dag_run sample_rows [])))))"
proof -
  have k: "map_of [(''maxDBEntryAgeInDays'', JInt 0)] ''maxDBEntryAgeInDays'' = Some (JInt 0)"
    by simp
  have n: "is_datetime (midnight 739038)"
    by (simp add: is_datetime_def midnight_def datetime_end_def microseconds_per_day_def)
  have r: "log_row 13 739038 \<in> set (rows (store (world_of (new_dag_run sample_rows []))))"
    by (simp add: new_dag_run_def sample_rows_def)
  have a: "table (log_row 13 739038) = airflow_db_model Log_object \<and>
      map_of (dict (log_row 13 739038)) (column_key (age_check_column Log_object)) =
        Some (Some (midnight 739038))"
    by (simp add: log_row_def Log_object_def)
  show ?thesis
    using k n r a candidates_are_rows_at_or_before_cutoff
      [of Log_object "world_of (new_dag_run sample_rows [])"
          _ "[(''maxDBEntryAgeInDays'', JInt 0)]" "midnight 739038"]
    by blast
qed


lemma sample_clock:
  "is_datetime (midnight 739038)"
  "is_datetime (midnight 739037)"
  by (simp_all add: is_datetime_def midnight_def datetime_end_def microseconds_per_day_def)

lemma new_dag_run_simps:
  "rows (store (world_of (new_dag_run rs fs))) = rs"
  "xcom (world_of (new_dag_run rs fs)) = []"
  "xcom_pull t k (world_of (new_dag_run rs fs)) = None"
  by (simp_all add: new_dag_run_def xcom_pull_def)

lemma print_configuration_overflow:
  fixes kvs now w n
  defines "r \<equiv> print_configuration_function (JDict kvs) now w"
  assumes key: "map_of kvs ''maxDBEntryAgeInDays'' = Some (JInt n)"
    and res: "\<not> is_datetime (now - n * microseconds_per_day)"
  shows "fst r = Raised OverflowError" and "xcom (snd r) = xcom w"
proof -
  have ne: "kvs \<noteq> []" using key by auto
  show "fst r = Raised OverflowError" and "xcom (snd r) = xcom w"
    using ne res unfolding r_def
    by (simp_all add: print_configuration_unfold key)
qed

text \<open>
  C6, as the specification states it, fails: on 2024-06-01 a retention age of 1000000
  days asks for a date before 0001-01-01, the subtraction raises \<open>OverflowError\<close>, and
  no cut-off is pushed.
\<close>

theorem cutoff_out_of_range_counterexample:
  "(0::int) \<le> 1000000 \<and> is_datetime (midnight 739038) \<and>
   fst (print_configuration_function (JDict [(''maxDBEntryAgeInDays'', JInt 1000000)])
          (midnight 739038) (world_of (new_dag_run sample_rows []))) = Raised OverflowError \<and>
   xcom_pull PRINT_CONFIGURATION_task_id ''max_date''
     (snd (print_configuration_function (JDict [(''maxDBEntryAgeInDays'', JInt 1000000)])
          (midnight 739038) (world_of (new_dag_run sample_rows [])))) = None"
proof -
  have k: "map_of [(''maxDBEntryAgeInDays'', JInt 1000000)] ''maxDBEntryAgeInDays'' =
      Some (JInt 1000000)" by simp
  have r: "\<not> is_datetime (midnight 739038 - 1000000 * microseconds_per_day)"
    by (simp add: is_datetime_def midnight_def microseconds_per_day_def)
  show ?thesis
    using print_configuration_overflow [OF k r]
    by (simp add: sample_clock xcom_pull_def new_dag_run_simps)
qed

text \<open>
  C6, amended. For a non-negative integer retention age and a clock reading \<open>now\<close> such
  that \<open>now\<close> minus that many days is not before 0001-01-01, the cut-off pushed is
  exactly \<open>now\<close> minus that number of whole days; a larger age gives an earlier or equal
  cut-off.
\<close>

theorem cutoff_is_now_minus_whole_days:
  assumes "map_of kvs ''maxDBEntryAgeInDays'' = Some (JInt n)"
    and "map_of kvs' ''maxDBEntryAgeInDays'' = Some (JInt n')"
    and "0 \<le> n" and "n \<le> n'"
    and "is_datetime now" and "n' * microseconds_per_day \<le> now"
  shows "fst (print_configuration_function (JDict kvs) now w) = Returned \<and>
   xcom_pull PRINT_CONFIGURATION_task_id ''max_date''
     (snd (print_configuration_function (JDict kvs) now w)) =
     Some (now - n * microseconds_per_day) \<and>
   fst (print_configuration_function (JDict kvs') now w') = Returned \<and>
   xcom_pull PRINT_CONFIGURATION_task_id ''max_date''
     (snd (print_configuration_function (JDict kvs') now w')) =
     Some (now - n' * microseconds_per_day) \<and>
   now - n' * microseconds_per_day \<le> now - n * microseconds_per_day"
proof -
  have le: "n * microseconds_per_day \<le> n' * microseconds_per_day"
    using assms(4) by (simp add: microseconds_per_day_def)
  have r': "is_datetime (now - n' * microseconds_per_day)"
    using assms(3-6) by (simp add: is_datetime_def microseconds_per_day_def)
  have r: "is_datetime (now - n * microseconds_per_day)"
    using assms(3-6) le by (simp add: is_datetime_def microseconds_per_day_def)
  show ?thesis
    using print_configuration_override [OF assms(1) assms(5) r, of w]
      print_configuration_override [OF assms(2) assms(5) r', of w'] le
    by simp
qed

theorem cutoff_is_now_minus_whole_days_witness:
  "map_of [(''maxDBEntryAgeInDays'', JInt 30)] ''maxDBEntryAgeInDays'' = Some (JInt 30) \<and>
   map_of [(''maxDBEntryAgeInDays'', JInt 45)] ''maxDBEntryAgeInDays'' = Some (JInt 45) \<and>
   (0::int) \<le> 30 \<and> (30::int) \<le> 45 \<and> is_datetime (midnight 739038) \<and>
   45 * microseconds_per_day \<le> midnight 739038 \<and>
   xcom_pull PRINT_CONFIGURATION_task_id ''max_date''
     (snd (print_configuration_function (JDict [(''maxDBEntryAgeInDays'', JInt 30)])
        (midnight 739038) (world_of (new_dag_run sample_rows [])))) = Some (midnight 739008) \<and>
   xcom_pull PRINT_CONFIGURATION_task_id ''max_date''
     (snd (print_configuration_function (JDict [(''maxDBEntryAgeInDays'', JInt 45)])
        (midnight 739038) (world_of (new_dag_run sample_rows [])))) = Some (midnight 738993)"
proof -
  have k: "map_of [(''maxDBEntryAgeInDays'', JInt 30)] ''maxDBEntryAgeInDays'' = Some (JInt 30)"
    and k': "map_of [(''maxDBEntryAgeInDays'', JInt 45)] ''maxDBEntryAgeInDays'' = Some (JInt 45)"
    by simp_all
  have a: "(0::int) \<le> 30" and b: "(30::int) \<le> 45" by simp_all
  have c: "45 * microseconds_per_day \<le> midnight 739038"
    by (simp add: midnight_def microseconds_per_day_def)
  show ?thesis
    using k k' c cutoff_is_now_minus_whole_days [OF k k' a b sample_clock(1) c,
        of "world_of (new_dag_run sample_rows [])" "world_of (new_dag_run sample_rows [])"]
    by (simp add: midnight_def microseconds_per_day_def is_datetime_def datetime_end_def)
qed





text \<open>
  C1, as the specification states it, fails. A malformed override, here the string
  \<open>thirty\<close>, makes \<open>timedelta\<close> raise \<open>TypeError\<close>, so nothing is pushed; a negative
  override, here -5, is not replaced by the default: the cut-off pushed on 2024-06-01 is
  2024-06-06, not 2024-05-02.
\<close>

theorem malformed_or_negative_override_counterexample:
  "fst (print_configuration_function (JDict [(''maxDBEntryAgeInDays'', JStr ''thirty'')])
          (midnight 739038) (world_of (new_dag_run sample_rows []))) = Raised TypeError \<and>
   xcom_pull PRINT_CONFIGURATION_task_id ''max_date''
     (snd (print_configuration_function (JDict [(''maxDBEntryAgeInDays'', JStr ''thirty'')])
          (midnight 739038) (world_of (new_dag_run sample_rows [])))) = None \<and>
   xcom_pull PRINT_CONFIGURATION_task_id ''max_date''
     (snd (print_configuration_function (JDict [(''maxDBEntryAgeInDays'', JInt (- 5))])
          (midnight 739038) (world_of (new_dag_run sample_rows [])))) = Some (midnight 739043) \<and>
   midnight 739043 \<noteq> midnight 739038 - DEFAULT_MAX_DB_ENTRY_AGE_IN_DAYS * microseconds_per_day"
proof -
  have k: "map_of [(''maxDBEntryAgeInDays'', JStr ''thirty'')] ''maxDBEntryAgeInDays'' =
      Some (JStr ''thirty'')" by simp
  have v: "(\<exists>s. JStr ''thirty'' = JStr s) \<or> (\<exists>xs. JStr ''thirty'' = JList xs) \<or>
      (\<exists>d. JStr ''thirty'' = JDict d)" by simp
  have k': "map_of [(''maxDBEntryAgeInDays'', JInt (- 5))] ''maxDBEntryAgeInDays'' =
      Some (JInt (- 5))" by simp
  have eq: "midnight 739038 - (- 5) * microseconds_per_day = midnight 739043"
    by (simp add: midnight_def microseconds_per_day_def)
  have r: "is_datetime (midnight 739038 - (- 5) * microseconds_per_day)"
    by (simp add: is_datetime_def midnight_def datetime_end_def microseconds_per_day_def)
  have d: "midnight 739043 \<noteq>
      midnight 739038 - DEFAULT_MAX_DB_ENTRY_AGE_IN_DAYS * microseconds_per_day"
    by (simp add: midnight_def microseconds_per_day_def DEFAULT_MAX_DB_ENTRY_AGE_IN_DAYS_def)
  show ?thesis
    using print_configuration_malformed [OF k v]
      print_configuration_override(2) [OF k' sample_clock(1) r] d
    unfolding eq by (simp add: xcom_pull_def new_dag_run_simps)
qed

text \<open>
  C1, amended. When the override is absent (no \<open>conf\<close>, an empty one, no
  \<open>maxDBEntryAgeInDays\<close> key, or a null value) and the clock reads at least 30 days after
  0001-01-01, the configuration task returns and pushes \<open>now\<close> minus the default of 30
  days. A present override is not validated: a string, list or object raises
  \<open>TypeError\<close> and nothing is pushed, and a negative integer is used as given.
\<close>

theorem absent_override_uses_default:
  "((\<not> truthy conf \<or>
      (\<exists>kvs. conf = JDict kvs \<and> map_of kvs ''maxDBEntryAgeInDays'' \<in> {None, Some JNull})) \<and>
     is_datetime (now - 30 * microseconds_per_day) \<longrightarrow>
     fst (print_configuration_function conf now w) = Returned \<and>
     xcom_pull PRINT_CONFIGURATION_task_id ''max_date''
       (snd (print_configuration_function conf now w)) =
       Some (now - DEFAULT_MAX_DB_ENTRY_AGE_IN_DAYS * microseconds_per_day) \<and>
     DEFAULT_MAX_DB_ENTRY_AGE_IN_DAYS = 30) \<and>
   (map_of kvs ''maxDBEntryAgeInDays'' = Some v \<and>
     ((\<exists>s. v = JStr s) \<or> (\<exists>xs. v = JList xs) \<or> (\<exists>d. v = JDict d)) \<longrightarrow>
     fst (print_configuration_function (JDict kvs) now w) = Raised TypeError \<and>
     xcom (snd (print_configuration_function (JDict kvs) now w)) = xcom w) \<and>
   (map_of kvs ''maxDBEntryAgeInDays'' = Some (JInt n) \<and> n < 0 \<and> is_datetime now \<and>
     is_datetime (now - n * microseconds_per_day) \<longrightarrow>
     fst (print_configuration_function (JDict kvs) now w) = Returned \<and>
     xcom_pull PRINT_CONFIGURATION_task_id ''max_date''
       (snd (print_configuration_function (JDict kvs) now w)) =
       Some (now - n * microseconds_per_day))"
proof (intro conjI impI)
  assume a: "(\<not> truthy conf \<or>
      (\<exists>kvs. conf = JDict kvs \<and> map_of kvs ''maxDBEntryAgeInDays'' \<in> {None, Some JNull})) \<and>
     is_datetime (now - 30 * microseconds_per_day)"
  then have r: "is_datetime (now - DEFAULT_MAX_DB_ENTRY_AGE_IN_DAYS * microseconds_per_day)"
    by (simp add: DEFAULT_MAX_DB_ENTRY_AGE_IN_DAYS_def)
  from a have absent: "\<not> truthy conf \<or>
      (\<exists>kvs. conf = JDict kvs \<and> map_of kvs ''maxDBEntryAgeInDays'' \<in> {None, Some JNull})"
    by (rule conjunct1)
  show "fst (print_configuration_function conf now w) = Returned"
    by (rule print_configuration_default(1) [OF absent r])
  show "xcom_pull PRINT_CONFIGURATION_task_id ''max_date''
       (snd (print_configuration_function conf now w)) =
       Some (now - DEFAULT_MAX_DB_ENTRY_AGE_IN_DAYS * microseconds_per_day)"
    by (rule print_configuration_default(2) [OF absent r])
  show "DEFAULT_MAX_DB_ENTRY_AGE_IN_DAYS = 30"
    by (simp add: DEFAULT_MAX_DB_ENTRY_AGE_IN_DAYS_def)
next
  assume a: "map_of kvs ''maxDBEntryAgeInDays'' = Some v \<and>
     ((\<exists>s. v = JStr s) \<or> (\<exists>xs. v = JList xs) \<or> (\<exists>d. v = JDict d))"
  then have k: "map_of kvs ''maxDBEntryAgeInDays'' = Some v"
    and v: "(\<exists>s. v = JStr s) \<or> (\<exists>xs. v = JList xs) \<or> (\<exists>d. v = JDict d)"
    by simp_all
  show "fst (print_configuration_function (JDict kvs) now w) = Raised TypeError"
    by (rule print_configuration_malformed(1) [OF k v])
  show "xcom (snd (print_configuration_function (JDict kvs) now w)) = xcom w"
    by (rule print_configuration_malformed(2) [OF k v])
next
  assume a: "map_of kvs ''maxDBEntryAgeInDays'' = Some (JInt n) \<and> n < 0 \<and> is_datetime now \<and>
     is_datetime (now - n * microseconds_per_day)"
  then have k: "map_of kvs ''maxDBEntryAgeInDays'' = Some (JInt n)"
    and c: "is_datetime now" and r: "is_datetime (now - n * microseconds_per_day)"
    by simp_all
  show "fst (print_configuration_function (JDict kvs) now w) = Returned"
    by (rule print_configuration_override(1) [OF k c r])
  show "xcom_pull PRINT_CONFIGURATION_task_id ''max_date''
       (snd (print_configuration_function (JDict kvs) now w)) =
       Some (now - n * microseconds_per_day)"
    by (rule print_configuration_override(2) [OF k c r])
qed

theorem absent_override_uses_default_witness:
  "\<not> truthy JNull \<and> is_datetime (midnight 739038 - 30 * microseconds_per_day) \<and>
   fst (print_configuration_function JNull (midnight 739038)
          (world_of (new_dag_run sample_rows []))) = Returned \<and>
   xcom_pull PRINT_CONFIGURATION_task_id ''max_date''
     (snd (print_configuration_function JNull (midnight 739038)
          (world_of (new_dag_run sample_rows [])))) = Some (midnight 739008) \<and>
   map_of [(''maxDBEntryAgeInDays'', JList [])] ''maxDBEntryAgeInDays'' = Some (JList []) \<and>
   fst (print_configuration_function (JDict [(''maxDBEntryAgeInDays'', JList [])])
          (midnight 739038) (world_of (new_dag_run sample_rows []))) = Raised TypeError \<and>
   map_of [(''maxDBEntryAgeInDays'', JInt (- 2))] ''maxDBEntryAgeInDays'' = Some (JInt (- 2)) \<and>
   (- 2 :: int) < 0 \<and> is_datetime (midnight 739038) \<and>
   is_datetime (midnight 739038 - (- 2) * microseconds_per_day) \<and>
   xcom_pull PRINT_CONFIGURATION_task_id ''max_date''
     (snd (print_configuration_function (JDict [(''maxDBEntryAgeInDays'', JInt (- 2))])
          (midnight 739038) (world_of (new_dag_run sample_rows [])))) = Some (midnight 739040)"
proof -
  have r30: "is_datetime (midnight 739038 - 30 * microseconds_per_day)"
    and r2: "is_datetime (midnight 739038 - (- 2) * microseconds_per_day)"
    by (simp_all add: is_datetime_def midnight_def datetime_end_def microseconds_per_day_def)
  have eq: "midnight 739038 - DEFAULT_MAX_DB_ENTRY_AGE_IN_DAYS * microseconds_per_day =
      midnight 739008"
    "midnight 739038 - (- 2) * microseconds_per_day = midnight 739040"
    by (simp_all add: midnight_def microseconds_per_day_def DEFAULT_MAX_DB_ENTRY_AGE_IN_DAYS_def)
  show ?thesis
    using r30 r2 sample_clock(1)
      absent_override_uses_default [of JNull "midnight 739038"
        "world_of (new_dag_run sample_rows [])" "[(''maxDBEntryAgeInDays'', JList [])]"
        "JList []" "- 2"]
      absent_override_uses_default [of JNull "midnight 739038"
        "world_of (new_dag_run sample_rows [])" "[(''maxDBEntryAgeInDays'', JInt (- 2))]"
        "JInt (- 2)" "- 2"]
    by (simp add: eq(1)) (simp add: midnight_def microseconds_per_day_def)
qed


subsection \<open>Runs of the DAG\<close>











end
